theory Spec2Isabelle
  imports Main "HOL-Library.AList"
begin

section \<open>JavaScript values\<close>

text \<open>
  The service handles untyped request bodies and stored documents, so values are
  modelled as JavaScript values. Numbers are the integers (amounts in whole currency
  units); \<open>NaN\<close> is a value of its own. Floating-point rounding, fractions and the
  infinities are outside this model.
\<close>

datatype jsval =
    Undefined
  | Null
  | Bool bool
  | Num int
  | NaN
  | Str string
  | Arr "jsval list"
  | Obj "(string \<times> jsval) list"

type_synonym fields = "(string \<times> jsval) list"

text \<open>Reading a field of a plain object: a missing key reads as \<open>undefined\<close>.\<close>

definition fld :: "fields \<Rightarrow> string \<Rightarrow> jsval" where
  "fld kvs k = (case map_of kvs k of None \<Rightarrow> Undefined | Some v \<Rightarrow> v)"

text \<open>
  \<open>v?.k\<close>: optional chaining gives \<open>undefined\<close> on \<open>undefined\<close> and \<open>null\<close>; arrays and
  strings have a \<open>length\<close>.
\<close>

fun get_prop :: "jsval \<Rightarrow> string \<Rightarrow> jsval" where
  "get_prop (Obj kvs) k = fld kvs k"
| "get_prop (Arr xs) k = (if k = ''length'' then Num (int (length xs)) else Undefined)"
| "get_prop (Str s) k = (if k = ''length'' then Num (int (length s)) else Undefined)"
| "get_prop _ k = Undefined"

fun truthy :: "jsval \<Rightarrow> bool" where
  "truthy Undefined = False"
| "truthy Null = False"
| "truthy (Bool b) = b"
| "truthy (Num n) = (n \<noteq> 0)"
| "truthy NaN = False"
| "truthy (Str s) = (s \<noteq> [])"
| "truthy (Arr _) = True"
| "truthy (Obj _) = True"

text \<open>\<open>a || b\<close> and \<open>a && b\<close> return one of their operands.\<close>

definition js_or :: "jsval \<Rightarrow> jsval \<Rightarrow> jsval" where
  "js_or a b = (if truthy a then a else b)"

definition js_and :: "jsval \<Rightarrow> jsval \<Rightarrow> jsval" where
  "js_and a b = (if truthy a then b else a)"

text \<open>
  \<open>a === b\<close>. The two sides always come from different places (request and store), so
  two arrays or two objects are never the same reference; \<open>NaN\<close> equals nothing.
\<close>

fun strict_eq :: "jsval \<Rightarrow> jsval \<Rightarrow> bool" where
  "strict_eq Undefined Undefined = True"
| "strict_eq Null Null = True"
| "strict_eq (Bool a) (Bool b) = (a = b)"
| "strict_eq (Num a) (Num b) = (a = b)"
| "strict_eq (Str a) (Str b) = (a = b)"
| "strict_eq _ _ = False"

subsection \<open>Conversion to a number\<close>

definition is_digit :: "char \<Rightarrow> bool" where
  "is_digit c = (48 \<le> (of_char c :: nat) \<and> (of_char c :: nat) \<le> 57)"

definition is_space :: "char \<Rightarrow> bool" where
  "is_space c = ((of_char c :: nat) \<in> {9, 10, 11, 12, 13, 32})"

fun digits_value :: "string \<Rightarrow> int \<Rightarrow> int option" where
  "digits_value [] acc = Some acc"
| "digits_value (c # cs) acc =
     (if is_digit c then digits_value cs (10 * acc + (int (of_char c) - 48)) else None)"

definition trim :: "string \<Rightarrow> string" where
  "trim s = rev (dropWhile is_space (rev (dropWhile is_space s)))"

text \<open>
  The digits of a literal in base 2, 8 or 16 (\<open>0b\<close>, \<open>0o\<close>, \<open>0x\<close>).
\<close>

definition radix_digit :: "char \<Rightarrow> nat" where
  "radix_digit c =
     (let n = (of_char c :: nat) in
      if 48 \<le> n \<and> n \<le> 57 then n - 48
      else if 97 \<le> n \<and> n \<le> 102 then n - 87
      else if 65 \<le> n \<and> n \<le> 70 then n - 55
      else 16)"

fun radix_value :: "nat \<Rightarrow> string \<Rightarrow> int \<Rightarrow> int option" where
  "radix_value b [] acc = Some acc"
| "radix_value b (c # cs) acc =
     (if radix_digit c < b then radix_value b cs (int b * acc + int (radix_digit c))
      else None)"

text \<open>The exponent part of a decimal literal: nothing, or \<open>e\<close> with a signed number.\<close>

definition exponent :: "string \<Rightarrow> int option" where
  "exponent r =
     (case r of
        [] \<Rightarrow> Some 0
      | c # t \<Rightarrow>
          if c = CHR ''e'' \<or> c = CHR ''E''
          then (case t of
                  [] \<Rightarrow> None
                | d # ds \<Rightarrow>
                    if d = CHR ''-''
                    then (if ds = [] then None else map_option uminus (digits_value ds 0))
                    else if d = CHR ''+''
                    then (if ds = [] then None else digits_value ds 0)
                    else digits_value (d # ds) 0)
          else None)"

text \<open>
  The integer \<open>m * 10 ^ k\<close>, when it is one; a fraction has no value in this model.
\<close>

definition scale :: "int \<Rightarrow> int \<Rightarrow> int option" where
  "scale m k =
     (if 0 \<le> k then Some (m * 10 ^ nat k)
      else if m mod 10 ^ nat (- k) = 0 then Some (m div 10 ^ nat (- k))
      else None)"

text \<open>
  An unsigned decimal literal: digits, an optional point with more digits, an optional
  exponent; at least one digit before the exponent.
\<close>

definition unsigned_decimal :: "string \<Rightarrow> int option" where
  "unsigned_decimal body =
     (let ip = takeWhile is_digit body;
          r1 = dropWhile is_digit body;
          fp = (case r1 of
                  [] \<Rightarrow> []
                | c # t \<Rightarrow> if c = CHR ''.'' then takeWhile is_digit t else []);
          r2 = (case r1 of
                  [] \<Rightarrow> []
                | c # t \<Rightarrow> if c = CHR ''.'' then dropWhile is_digit t else r1)
      in if ip = [] \<and> fp = [] then None
         else (case (digits_value (ip @ fp) 0, exponent r2) of
                 (Some m, Some e) \<Rightarrow> scale m (e - int (length fp))
               | _ \<Rightarrow> None))"

text \<open>
  \<open>Number(s)\<close> on a string: white space around the literal is skipped and the empty
  string is \<open>0\<close>; a literal is hexadecimal, octal or binary with its prefix and no sign,
  or decimal with an optional sign; anything else is \<open>NaN\<close> (\<open>None\<close>). A literal
  whose value is a fraction or an infinity has no value in this model and reads as
  \<open>None\<close> too.
\<close>

definition str_to_number :: "string \<Rightarrow> int option" where
  "str_to_number s =
     (case trim s of
        [] \<Rightarrow> Some 0
      | [c] \<Rightarrow> unsigned_decimal [c]
      | c # d # cs \<Rightarrow>
          if c = CHR ''0'' \<and> (d = CHR ''x'' \<or> d = CHR ''X'')
          then (if cs = [] then None else radix_value 16 cs 0)
          else if c = CHR ''0'' \<and> (d = CHR ''o'' \<or> d = CHR ''O'')
          then (if cs = [] then None else radix_value 8 cs 0)
          else if c = CHR ''0'' \<and> (d = CHR ''b'' \<or> d = CHR ''B'')
          then (if cs = [] then None else radix_value 2 cs 0)
          else if c = CHR ''-'' then map_option uminus (unsigned_decimal (d # cs))
          else if c = CHR ''+'' then unsigned_decimal (d # cs)
          else unsigned_decimal (c # d # cs))"

text \<open>
  \<open>Number(v)\<close>, with \<open>None\<close> for \<open>NaN\<close>. An array converts through its string form: the
  empty array is \<open>0\<close>, a one-element array converts as its element does (\<open>null\<close> and
  \<open>undefined\<close> print as the empty string), a longer one contains a comma.
\<close>

fun to_number :: "jsval \<Rightarrow> int option" where
  "to_number Undefined = None"
| "to_number Null = Some 0"
| "to_number (Bool b) = Some (if b then 1 else 0)"
| "to_number (Num n) = Some n"
| "to_number NaN = None"
| "to_number (Str s) = str_to_number s"
| "to_number (Arr []) = Some 0"
| "to_number (Arr [Undefined]) = Some 0"
| "to_number (Arr [Null]) = Some 0"
| "to_number (Arr [Bool b]) = None"
| "to_number (Arr [x]) = to_number x"
| "to_number (Arr (x # y # zs)) = None"
| "to_number (Obj _) = None"

text \<open>\<open>Number(a) !== Number(b)\<close>: \<open>NaN\<close> differs from everything, itself included.\<close>

definition num_neq :: "int option \<Rightarrow> int option \<Rightarrow> bool" where
  "num_neq a b = (case (a, b) of (Some x, Some y) \<Rightarrow> x \<noteq> y | _ \<Rightarrow> True)"

text \<open>\<open>a - b\<close>: both sides are converted to numbers.\<close>

definition js_sub :: "jsval \<Rightarrow> jsval \<Rightarrow> jsval" where
  "js_sub a b =
     (case (to_number a, to_number b) of (Some x, Some y) \<Rightarrow> Num (x - y) | _ \<Rightarrow> NaN)"

text \<open>\<open>Number(v) || 0\<close>: a number, never \<open>NaN\<close>.\<close>

definition number_or_zero :: "jsval \<Rightarrow> int" where
  "number_or_zero v = (case to_number v of None \<Rightarrow> 0 | Some n \<Rightarrow> n)"

subsection \<open>Conversion to a string\<close>

function show_nat :: "nat \<Rightarrow> string" where
  "show_nat n =
     (if n < 10 then [char_of (48 + n)] else show_nat (n div 10) @ [char_of (48 + n mod 10)])"
  by pat_completeness auto
termination
  by (relation "measure id") auto

declare show_nat.simps [simp del]

definition show_int :: "int \<Rightarrow> string" where
  "show_int i = (if i < 0 then CHR ''-'' # show_nat (nat (- i)) else show_nat (nat i))"

fun join_comma :: "string list \<Rightarrow> string" where
  "join_comma [] = []"
| "join_comma [s] = s"
| "join_comma (s # t # ts) = s @ CHR '','' # join_comma (t # ts)"

text \<open>
  \<open>String(v)\<close>: an array prints its elements joined by commas, with \<open>null\<close> and
  \<open>undefined\<close> elements empty; a plain object prints as \<open>[object Object]\<close>.
\<close>

fun to_string :: "jsval \<Rightarrow> string" where
  "to_string Undefined = ''undefined''"
| "to_string Null = ''null''"
| "to_string (Bool b) = (if b then ''true'' else ''false'')"
| "to_string (Num n) = show_int n"
| "to_string NaN = ''NaN''"
| "to_string (Str s) = s"
| "to_string (Arr xs) =
     join_comma (map (\<lambda>x. if x = Null \<or> x = Undefined then [] else to_string x) xs)"
| "to_string (Obj _) = ''[object Object]''"

text \<open>
  \<open>v[i]\<close> for a number \<open>i\<close>: an element of an array, a character of a string, the field
  of an object whose name is the number printed.
\<close>

definition index_of :: "jsval \<Rightarrow> int \<Rightarrow> jsval" where
  "index_of v i =
     (case v of
        Arr xs \<Rightarrow> if 0 \<le> i \<and> nat i < length xs then xs ! nat i else Undefined
      | Str s \<Rightarrow> if 0 \<le> i \<and> nat i < length s then Str [s ! nat i] else Undefined
      | Obj kvs \<Rightarrow> fld kvs (show_int i)
      | _ \<Rightarrow> Undefined)"

section \<open>The store\<close>

datatype js_error = JsError (err_name: string) (err_message: string)

text \<open>
  The process state one call sees: the lock map of \<open>ProjectService.updateLocks\<close> (its
  keys, the id strings as the callers wrote them), the \<open>projects\<close> collection keyed by
  the hexadecimal string of the \<open>_id\<close>, the outcome of the coming store round trips
  (\<open>Some e\<close>: the round trip throws \<open>e\<close> and is not applied; once the list is used up
  every round trip succeeds), the clock in milliseconds and the delays of the
  \<open>setTimeout\<close> waits so far.
\<close>

record state =
  updateLocks :: "string set"
  projects :: "string \<rightharpoonup> fields"
  faults :: "js_error option list"
  clock :: nat
  timers :: "nat list"

definition sleep :: "nat \<Rightarrow> state \<Rightarrow> state" where
  "sleep ms s = s\<lparr>clock := clock s + ms, timers := timers s @ [ms]\<rparr>"

text \<open>\<open>new Date().toISOString()\<close>: the clock reading stands for the time stamp.\<close>

definition now :: "state \<Rightarrow> jsval" where
  "now s = Num (int (clock s))"

definition next_fault :: "state \<Rightarrow> js_error option \<times> state" where
  "next_fault s =
     (case faults s of [] \<Rightarrow> (None, s) | f # fs \<Rightarrow> (f, s\<lparr>faults := fs\<rparr>))"

definition is_hex :: "char \<Rightarrow> bool" where
  "is_hex c = (c \<in> set ''0123456789abcdefABCDEF'')"

text \<open>
  \<open>ObjectId.isValid\<close> of the driver, on the strings a route parameter can be: 24
  hexadecimal digits.
\<close>

definition ObjectId_isValid :: "string \<Rightarrow> bool" where
  "ObjectId_isValid pid = (length pid = 24 \<and> list_all is_hex pid)"

text \<open>
  \<open>new ObjectId(id)\<close>, as its hexadecimal string: the digits in lower case, so the two
  spellings of one id name the same document.
\<close>

definition lower_hex :: "char \<Rightarrow> char" where
  "lower_hex c =
     (if 65 \<le> (of_char c :: nat) \<and> (of_char c :: nat) \<le> 70
      then char_of ((of_char c :: nat) + 32) else c)"

definition ObjectId :: "string \<Rightarrow> string" where
  "ObjectId pid = map lower_hex pid"

subsection \<open>Update documents\<close>

text \<open>
  One update document of the driver: \<open>$set\<close> of fields, the positional \<open>$set\<close> of
  \<open>subgoals.$.f\<close> for the sub-goal the filter \<open>subgoals.id\<close> selects, and \<open>$push\<close> of
  one entry to \<open>history\<close>, with \<open>$slice: -n\<close> when a bound is given.
\<close>

record update_ops =
  set_ops :: fields
  positional_ops :: "(string \<times> fields) option"
  push_op :: "(jsval \<times> nat option) option"

definition mongo_error :: "string \<Rightarrow> js_error" where
  "mongo_error message = JsError ''MongoServerError'' message"

definition server_error :: js_error where
  "server_error = mongo_error ''The field history must be an array''"

text \<open>
  The store reads a key of \<open>$set\<close> as a path: the names between the dots lead through
  embedded documents and, as indices, through arrays.
\<close>

fun split_path :: "string \<Rightarrow> string list" where
  "split_path [] = [[]]"
| "split_path (c # cs) =
     (if c = CHR ''.'' then [] # split_path cs
      else (case split_path cs of [] \<Rightarrow> [[c]] | p # ps \<Rightarrow> (c # p) # ps))"

text \<open>
  What the store refuses before it looks for a document: an empty name in a path, a
  name that begins with \<open>$\<close> other than the positional \<open>$\<close> and \<open>$[]\<close> (no array
  filters are given), and two paths of which one leads into the other.
\<close>

definition name_ok :: "string \<Rightarrow> bool" where
  "name_ok k =
     (case k of
        [] \<Rightarrow> False
      | c # cs \<Rightarrow> if c = CHR ''$'' then cs = [] \<or> cs = ''[]'' else True)"

fun is_prefix :: "'a list \<Rightarrow> 'a list \<Rightarrow> bool" where
  "is_prefix [] ys = True"
| "is_prefix (x # xs) [] = False"
| "is_prefix (x # xs) (y # ys) = (x = y \<and> is_prefix xs ys)"

fun has_conflict :: "string list list \<Rightarrow> bool" where
  "has_conflict [] = False"
| "has_conflict (p # ps) =
     (list_ex (\<lambda>q. is_prefix p q \<or> is_prefix q p) ps \<or> has_conflict ps)"

definition ops_paths :: "update_ops \<Rightarrow> string list list" where
  "ops_paths ops =
     map (split_path \<circ> fst) (set_ops ops) @
     (case positional_ops ops of
        None \<Rightarrow> []
      | Some (sid, sets) \<Rightarrow> map (\<lambda>(k, v). [''subgoals'', ''$'', k]) sets) @
     (case push_op ops of None \<Rightarrow> [] | Some p \<Rightarrow> [[''history'']])"

definition ops_valid :: "update_ops \<Rightarrow> bool" where
  "ops_valid ops =
     (list_all (list_all name_ok) (ops_paths ops) \<and> \<not> has_conflict (ops_paths ops))"

text \<open>An index into an array: a decimal number with no leading zero.\<close>

definition array_index :: "string \<Rightarrow> nat option" where
  "array_index k =
     (if k \<noteq> [] \<and> list_all is_digit k \<and> (k = ''0'' \<or> hd k \<noteq> CHR ''0'')
      then map_option nat (digits_value k 0) else None)"

fun all_or_error :: "(js_error + 'a) list \<Rightarrow> js_error + 'a list" where
  "all_or_error [] = Inr []"
| "all_or_error (r # rs) =
     (case r of
        Inl e \<Rightarrow> Inl e
      | Inr x \<Rightarrow> (case all_or_error rs of Inl e \<Rightarrow> Inl e | Inr xs \<Rightarrow> Inr (x # xs)))"

text \<open>
  Setting the value at a path, given the value now there (\<open>undefined\<close> when the field is
  missing). A missing field is created, with embedded documents on the way; an array is
  extended with \<open>null\<close> up to a new index; \<open>$[]\<close> sets every element of an array; a
  path cannot lead through a value that is neither a document nor an array, nor through
  an array by a name; the positional \<open>$\<close> has no match to go by, the filter naming no
  array.
\<close>

fun set_path :: "string list \<Rightarrow> jsval \<Rightarrow> jsval \<Rightarrow> js_error + jsval" where
  "set_path [] v cur = Inr v"
| "set_path (k # ks) v cur =
     (if k = ''$'' then Inl (mongo_error ''The positional operator did not find the match'')
      else if k = ''$[]''
      then (case cur of
              Arr xs \<Rightarrow>
                (case all_or_error (map (set_path ks v) xs) of
                   Inl e \<Rightarrow> Inl e
                 | Inr ys \<Rightarrow> Inr (Arr ys))
            | _ \<Rightarrow> Inl (mongo_error ''Cannot apply array updates to non-array element''))
      else
        (case cur of
           Obj kvs \<Rightarrow>
             (case set_path ks v (fld kvs k) of
                Inl e \<Rightarrow> Inl e
              | Inr x \<Rightarrow> Inr (Obj (AList.update k x kvs)))
         | Undefined \<Rightarrow>
             (case set_path ks v Undefined of
                Inl e \<Rightarrow> Inl e
              | Inr x \<Rightarrow> Inr (Obj [(k, x)]))
         | Arr xs \<Rightarrow>
             (case array_index k of
                None \<Rightarrow> Inl (mongo_error ''Cannot create field in element'')
              | Some i \<Rightarrow>
                  if i < length xs
                  then (case set_path ks v (xs ! i) of
                          Inl e \<Rightarrow> Inl e
                        | Inr x \<Rightarrow> Inr (Arr (xs[i := x])))
                  else (case set_path ks v Undefined of
                          Inl e \<Rightarrow> Inl e
                        | Inr x \<Rightarrow> Inr (Arr (xs @ replicate (i - length xs) Null @ [x]))))
         | _ \<Rightarrow> Inl (mongo_error ''Cannot create field in element'')))"

text \<open>
  \<open>$set\<close>, key by key, on the fields of a document. The \<open>_id\<close> is not among the fields
  (it is the key of the collection) and no path may lead into it.
\<close>

fun set_fields :: "fields \<Rightarrow> fields \<Rightarrow> js_error + fields" where
  "set_fields [] d = Inr d"
| "set_fields ((k, v) # sets) d =
     (if hd (split_path k) = ''_id''
      then Inl (mongo_error ''Performing an update on the path _id would modify the immutable field'')
      else (case set_path (split_path k) v (Obj d) of
              Inr (Obj d') \<Rightarrow> set_fields sets d'
            | Inr _ \<Rightarrow> Inl (mongo_error ''An empty update path is not valid'')
            | Inl e \<Rightarrow> Inl e))"

text \<open>
  Assigning to an object of the program (\<open>{...a, k: v}\<close>, \<open>a.k = v\<close>): the names are
  taken as they are.
\<close>

definition assign_fields :: "fields \<Rightarrow> fields \<Rightarrow> fields" where
  "assign_fields sets d = fold (\<lambda>(k, v). AList.update k v) sets d"

text \<open>\<open>$slice: -n\<close> keeps the last \<open>n\<close> elements.\<close>

definition slice_last :: "nat option \<Rightarrow> 'a list \<Rightarrow> 'a list" where
  "slice_last bound xs = (case bound of None \<Rightarrow> xs | Some n \<Rightarrow> drop (length xs - n) xs)"

definition push_history :: "(jsval \<times> nat option) option \<Rightarrow> fields \<Rightarrow> js_error + fields" where
  "push_history p d =
     (case p of
        None \<Rightarrow> Inr d
      | Some (entry, bound) \<Rightarrow>
          (case fld d ''history'' of
             Undefined \<Rightarrow> Inr (AList.update ''history'' (Arr (slice_last bound [entry])) d)
           | Arr h \<Rightarrow> Inr (AList.update ''history'' (Arr (slice_last bound (h @ [entry]))) d)
           | _ \<Rightarrow> Inl server_error))"

definition has_subgoal :: "string \<Rightarrow> jsval \<Rightarrow> bool" where
  "has_subgoal sid g = (get_prop g ''id'' = Str sid)"

fun set_first_match :: "string \<Rightarrow> fields \<Rightarrow> jsval list \<Rightarrow> jsval list" where
  "set_first_match sid sets [] = []"
| "set_first_match sid sets (g # gs) =
     (if has_subgoal sid g
      then (case g of Obj kvs \<Rightarrow> Obj (assign_fields sets kvs) | _ \<Rightarrow> g) # gs
      else g # set_first_match sid sets gs)"

text \<open>
  The filter: the document of that \<open>_id\<close>, and, with a positional update, one that has
  a sub-goal of that id.
\<close>

definition matches :: "(string \<times> fields) option \<Rightarrow> fields \<Rightarrow> bool" where
  "matches pos d =
     (case pos of
        None \<Rightarrow> True
      | Some (sid, sets) \<Rightarrow>
          (case fld d ''subgoals'' of Arr gs \<Rightarrow> list_ex (has_subgoal sid) gs | _ \<Rightarrow> False))"

definition apply_positional :: "(string \<times> fields) option \<Rightarrow> fields \<Rightarrow> fields" where
  "apply_positional pos d =
     (case pos of
        None \<Rightarrow> d
      | Some (sid, sets) \<Rightarrow>
          (case fld d ''subgoals'' of
             Arr gs \<Rightarrow> AList.update ''subgoals'' (Arr (set_first_match sid sets gs)) d
           | _ \<Rightarrow> d))"

text \<open>\<open>collection.findOne({_id: new ObjectId(id)})\<close>: the document, or \<open>null\<close>.\<close>

definition findOne :: "string \<Rightarrow> state \<Rightarrow> (js_error + jsval) \<times> state" where
  "findOne pid s =
     (case next_fault s of
        (Some e, s') \<Rightarrow> (Inl e, s')
      | (None, s') \<Rightarrow>
          (Inr (case projects s' (ObjectId pid) of None \<Rightarrow> Null | Some d \<Rightarrow> Obj d), s'))"

text \<open>
  \<open>collection.findOneAndUpdate(filter, ops, {returnDocument: 'after'})\<close>: one atomic
  round trip. The update document is checked first; then \<open>null\<close> and no write when
  nothing matches, no write when the update cannot be applied, the document after the
  update otherwise.
\<close>

definition findOneAndUpdate ::
  "string \<Rightarrow> update_ops \<Rightarrow> state \<Rightarrow> (js_error + jsval) \<times> state" where
  "findOneAndUpdate pid ops s =
     (case next_fault s of
        (Some e, s') \<Rightarrow> (Inl e, s')
      | (None, s') \<Rightarrow>
          if \<not> ops_valid ops then (Inl (mongo_error ''The update document is not valid''), s')
          else
            (case projects s' (ObjectId pid) of
               None \<Rightarrow> (Inr Null, s')
             | Some d \<Rightarrow>
                 if \<not> matches (positional_ops ops) d then (Inr Null, s')
                 else
                   (case set_fields (set_ops ops) d of
                      Inl e \<Rightarrow> (Inl e, s')
                    | Inr d1 \<Rightarrow>
                        (case push_history (push_op ops)
                                (apply_positional (positional_ops ops) d1) of
                           Inl e \<Rightarrow> (Inl e, s')
                         | Inr d' \<Rightarrow>
                             (Inr (Obj d'),
                              s'\<lparr>projects := (projects s')(ObjectId pid \<mapsto> d')\<rparr>)))))"

section \<open>ProjectService: helper methods\<close>

text \<open>
  \<open>cleanUpdateData\<close>: a copy of the patch (an object, so each key once) without the
  four protected keys.
\<close>

definition cleanUpdateData :: "fields \<Rightarrow> fields" where
  "cleanUpdateData data =
     AList.delete ''history'' (AList.delete ''createdAt''
       (AList.delete ''_id'' (AList.delete ''id'' (AList.clearjunk data))))"

definition shouldAddHistory :: "fields \<Rightarrow> jsval" where
  "shouldAddHistory updateData =
     js_or (fld updateData ''status'')
       (js_or (fld updateData ''subgoals'')
          (Bool (fld updateData ''totalCost'' \<noteq> Undefined)))"

definition shouldAddHistoryForField :: "string \<Rightarrow> jsval \<Rightarrow> jsval \<Rightarrow> jsval" where
  "shouldAddHistoryForField field newValue oldValue =
     (if field = ''totalCost''
      then Bool (newValue \<noteq> Undefined \<and>
                 num_neq (to_number newValue) (to_number (js_or oldValue (Num 0))))
      else if field = ''status''
      then js_and newValue (Bool (\<not> strict_eq newValue oldValue))
      else if field = ''subgoals''
      then (let oldCount = js_or (get_prop oldValue ''length'') (Num 0);
                newCount = js_or (get_prop newValue ''length'') (Num 0)
            in Bool (\<not> strict_eq newCount oldCount))
      else Bool True)"

definition getHistoryType :: "fields \<Rightarrow> string" where
  "getHistoryType updateData =
     (if truthy (fld updateData ''status'') then ''status_changed''
      else if truthy (fld updateData ''subgoals'') then ''goals_updated''
      else if fld updateData ''totalCost'' \<noteq> Undefined then ''cost_updated''
      else ''updated'')"

definition type_error :: js_error where
  "type_error = JsError ''TypeError'' ''Cannot read properties of null''"

text \<open>
  \<open>getHistoryDescription\<close>. The localised sentence is represented by the template
  chosen and the values put into it (the display names of \<open>getStatusText\<close> and the
  number formatting are not modelled). Formatting the new cost calls a method on it, which
  throws when the patch gives \<open>totalCost: null\<close>.
\<close>

definition getHistoryDescription :: "fields \<Rightarrow> jsval \<Rightarrow> js_error + jsval" where
  "getHistoryDescription updateData currentProject =
     (if truthy (fld updateData ''status'')
      then Inr (Arr [Str ''status'', get_prop currentProject ''status'',
                     fld updateData ''status''])
      else if truthy (fld updateData ''subgoals'')
      then (let oldCount = js_or (get_prop (get_prop currentProject ''subgoals'') ''length'') (Num 0);
                newCount = get_prop (fld updateData ''subgoals'') ''length''
            in Inr (Arr [Str ''subgoals'', oldCount, newCount]))
      else if fld updateData ''totalCost'' \<noteq> Undefined
      then (let oldCost = js_or (get_prop currentProject ''totalCost'') (Num 0);
                newCost = fld updateData ''totalCost'';
                difference = js_sub newCost oldCost
            in if newCost = Null then Inl type_error
               else Inr (Arr [Str ''totalCost'', oldCost, newCost, difference]))
      else Inr (Arr [Str ''updated'']))"

text \<open>\<open>getDetailedChanges\<close>, without the display texts of the status.\<close>

definition getDetailedChanges :: "fields \<Rightarrow> jsval \<Rightarrow> jsval" where
  "getDetailedChanges updateData currentProject =
     Obj ((if truthy (fld updateData ''status'')
           then [(''status'', Obj [(''from'', get_prop currentProject ''status''),
                                   (''to'', fld updateData ''status'')])]
           else [])
        @ (if fld updateData ''totalCost'' \<noteq> Undefined
           then (let oldCost = js_or (get_prop currentProject ''totalCost'') (Num 0)
                 in [(''totalCost'', Obj [(''from'', oldCost),
                                          (''to'', fld updateData ''totalCost''),
                                          (''difference'', js_sub (fld updateData ''totalCost'') oldCost)])])
           else [])
        @ (if truthy (fld updateData ''subgoals'')
           then (let oldCount = js_or (get_prop (get_prop currentProject ''subgoals'') ''length'') (Num 0);
                     newCount = get_prop (fld updateData ''subgoals'') ''length''
                 in [(''subgoals'', Obj [(''from'', oldCount), (''to'', newCount),
                                         (''difference'', js_sub newCount oldCount)])])
           else []))"

section \<open>ProjectService.update\<close>

definition maxRetries :: nat where
  "maxRetries = 3"

definition invalid_id :: js_error where
  "invalid_id = JsError ''Error'' ''Invalid project ID''"

definition not_found :: js_error where
  "not_found = JsError ''Error'' ''Project not found''"

text \<open>The default user name, an Arabic literal, as its UTF-8 bytes.\<close>

definition unknown_user_name :: string where
  "unknown_user_name = map char_of
     [217, 133, 216, 179, 216, 170, 216, 174, 216, 175, 217, 133, 32, 216, 186, 217,
      138, 216, 177, 32, 217, 133, 216, 185, 216, 177, 217, 136, 217, 129 :: nat]"

text \<open>
  The fields of \<open>$set\<close>: the cleaned patch with \<open>updatedAt\<close>, then \<open>subgoals\<close>, \<open>images\<close>
  and \<open>totalCost\<close> set again from the patch. Logging \<open>updateData.subgoals.length\<close> (and
  the same for images) throws on \<open>null\<close>.
\<close>

definition build_set :: "fields \<Rightarrow> jsval \<Rightarrow> js_error + fields" where
  "build_set updateData stamp =
     (let cleanData = AList.update ''updatedAt'' stamp (cleanUpdateData updateData) in
      if fld updateData ''subgoals'' = Null then Inl type_error
      else
        (let d1 = (if fld updateData ''subgoals'' \<noteq> Undefined
                   then AList.update ''subgoals'' (fld updateData ''subgoals'') cleanData
                   else cleanData) in
         if fld updateData ''images'' = Null then Inl type_error
         else
           (let d2 = (if fld updateData ''images'' \<noteq> Undefined
                      then AList.update ''images'' (fld updateData ''images'') d1
                      else d1);
                d3 = (if fld updateData ''totalCost'' \<noteq> Undefined
                      then AList.update ''totalCost'' (fld updateData ''totalCost'') d2
                      else d2)
            in Inr d3)))"

text \<open>The change detection of the update: the three field checks, joined by \<open>||\<close>.\<close>

definition hasActualChanges :: "fields \<Rightarrow> jsval \<Rightarrow> jsval" where
  "hasActualChanges updateData currentProject =
     js_or (shouldAddHistoryForField ''totalCost'' (fld updateData ''totalCost'')
              (get_prop currentProject ''totalCost''))
       (js_or (shouldAddHistoryForField ''status'' (fld updateData ''status'')
                 (get_prop currentProject ''status''))
          (shouldAddHistoryForField ''subgoals'' (fld updateData ''subgoals'')
             (get_prop currentProject ''subgoals'')))"

definition historyEntry :: "fields \<Rightarrow> jsval \<Rightarrow> jsval \<Rightarrow> jsval \<Rightarrow> jsval" where
  "historyEntry updateData currentProject description stamp =
     Obj [(''type'', Str (getHistoryType updateData)),
          (''description'', description),
          (''timestamp'', stamp),
          (''userId'', js_or (fld updateData ''userId'')
                         (js_or (fld updateData ''updatedBy'') (Str ''unknown''))),
          (''userName'', js_or (fld updateData ''userName'')
                           (js_or (fld updateData ''updatedBy'') (Str unknown_user_name))),
          (''changes'', getDetailedChanges updateData currentProject)]"

text \<open>
  The \<open>$push\<close> of the update: an entry, bounded by \<open>$slice: -20\<close>, when the patch asks for
  history, the project was found and the change detection reports a change.
\<close>

definition build_push ::
  "fields \<Rightarrow> jsval \<Rightarrow> jsval \<Rightarrow> js_error + (jsval \<times> nat option) option" where
  "build_push updateData currentProject stamp =
     (if truthy (shouldAddHistory updateData) \<and> truthy currentProject
      then (if truthy (hasActualChanges updateData currentProject)
            then (case getHistoryDescription updateData currentProject of
                    Inl e \<Rightarrow> Inl e
                  | Inr description \<Rightarrow>
                      Inr (Some (historyEntry updateData currentProject description stamp,
                                 Some 20)))
            else Inr None)
      else Inr None)"

text \<open>
  The log after the write: when the returned document has a history with a positive
  length, the code reads the \<open>type\<close> of its last entry, which throws when that entry is
  \<open>null\<close> or missing.
\<close>

definition log_latest_entry :: "jsval \<Rightarrow> js_error option" where
  "log_latest_entry result =
     (let history = get_prop result ''history'' in
      if truthy history
      then (case to_number (get_prop history ''length'') of
              None \<Rightarrow> None
            | Some n \<Rightarrow>
                if 0 < n
                then (let latestEntry = index_of history (n - 1) in
                      if latestEntry = Null \<or> latestEntry = Undefined then Some type_error
                      else None)
                else None)
      else None)"

text \<open>The value returned: \<open>{...result, id: result._id.toString(), _id: undefined}\<close>.\<close>

definition format_result :: "string \<Rightarrow> jsval \<Rightarrow> jsval" where
  "format_result pid result =
     (case result of
        Obj d \<Rightarrow>
          Obj (AList.update ''_id'' Undefined (AList.update ''id'' (Str (ObjectId pid)) d))
      | _ \<Rightarrow> result)"

text \<open>
  The \<open>try\<close> block of \<open>update\<close>: one attempt, the lock already taken. An error of
  the log after the write leaves the write in the store.
\<close>

definition update_attempt :: "string \<Rightarrow> fields \<Rightarrow> state \<Rightarrow> (js_error + jsval) \<times> state" where
  "update_attempt projectId updateData s =
     (if \<not> ObjectId_isValid projectId then (Inl invalid_id, s)
      else
        (let stamp = now s in
         case (if truthy (shouldAddHistory updateData) then findOne projectId s
               else (Inr Null, s)) of
           (Inl e, s1) \<Rightarrow> (Inl e, s1)
         | (Inr currentProject, s1) \<Rightarrow>
             (case build_set updateData stamp of
                Inl e \<Rightarrow> (Inl e, s1)
              | Inr setData \<Rightarrow>
                  (case build_push updateData currentProject stamp of
                     Inl e \<Rightarrow> (Inl e, s1)
                   | Inr push \<Rightarrow>
                       (case findOneAndUpdate projectId
                               \<lparr>set_ops = setData, positional_ops = None, push_op = push\<rparr> s1 of
                          (Inl e, s2) \<Rightarrow> (Inl e, s2)
                        | (Inr result, s2) \<Rightarrow>
                            if \<not> truthy result then (Inl not_found, s2)
                            else (case log_latest_entry result of
                                    Some e \<Rightarrow> (Inl e, s2)
                                  | None \<Rightarrow> (Inr (format_result projectId result), s2)))))))"

definition release :: "string \<Rightarrow> state \<Rightarrow> state" where
  "release projectId s = s\<lparr>updateLocks := updateLocks s - {projectId}\<rparr>"

definition acquire :: "string \<Rightarrow> state \<Rightarrow> state" where
  "acquire projectId s = s\<lparr>updateLocks := insert projectId (updateLocks s)\<rparr>"

definition retryable :: "js_error \<Rightarrow> bool" where
  "retryable e =
     (err_name e = ''MongoNetworkTimeoutError'' \<or> err_name e = ''MongoServerError'')"

text \<open>
  \<open>update\<close>, as one call runs it with no other call in flight. A call that finds the id in
  the lock map waits 100 ms and calls itself again; nothing bounds this, so the function
  is partial and \<open>None\<close> stands for a call that never returns. After a retryable error
  the \<open>catch\<close> block waits \<open>1000 * (retryCount + 1)\<close> ms and returns the promise of a
  new call of \<open>update\<close> without awaiting it: the inner call runs first, finds the lock of
  its caller and starts its 100 ms wait; then the caller's \<open>finally\<close> deletes the lock;
  then the inner call resumes.
\<close>

partial_function (option) update ::
  "string \<Rightarrow> fields \<Rightarrow> nat \<Rightarrow> state \<Rightarrow> ((js_error + jsval) \<times> state) option" where
  "update projectId updateData retryCount s =
     (if projectId \<in> updateLocks s
      then update projectId updateData retryCount (sleep 100 s)
      else
        (case update_attempt projectId updateData (acquire projectId s) of
           (Inr result, s1) \<Rightarrow> Some (Inr result, release projectId s1)
         | (Inl error, s1) \<Rightarrow>
             if retryable error \<and> retryCount < maxRetries
             then update projectId updateData (retryCount + 1)
                    (release projectId (sleep 100 (sleep (1000 * (retryCount + 1)) s1)))
             else Some (Inl error, release projectId s1)))"

declare update.simps [code]

text \<open>
  The same call, followed for at most \<open>n\<close> entries into \<open>update\<close> (each poll of the lock
  and each retry enters it again). It has either returned, or is about to enter once more
  with the retry count and in the state given.
\<close>

datatype outcome = Returned "js_error + jsval" state | Entering nat state

fun update_run :: "nat \<Rightarrow> string \<Rightarrow> fields \<Rightarrow> nat \<Rightarrow> state \<Rightarrow> outcome" where
  "update_run 0 projectId updateData retryCount s = Entering retryCount s"
| "update_run (Suc n) projectId updateData retryCount s =
     (if projectId \<in> updateLocks s
      then update_run n projectId updateData retryCount (sleep 100 s)
      else
        (case update_attempt projectId updateData (acquire projectId s) of
           (Inr result, s1) \<Rightarrow> Returned (Inr result) (release projectId s1)
         | (Inl error, s1) \<Rightarrow>
             if retryable error \<and> retryCount < maxRetries
             then update_run n projectId updateData (retryCount + 1)
                    (release projectId (sleep 100 (sleep (1000 * (retryCount + 1)) s1)))
             else Returned (Inl error) (release projectId s1)))"

section \<open>The route PUT /api/projects/:id/subgoals/:subgoalId/cost\<close>

text \<open>
  \<open>subgoals?.find(sg => sg.id === subgoalId)\<close>: \<open>undefined\<close> when there is no list or no
  such sub-goal; a value without \<open>find\<close> and a \<open>null\<close> element throw.
\<close>

fun find_goal :: "string \<Rightarrow> jsval list \<Rightarrow> js_error + jsval" where
  "find_goal sid [] = Inr Undefined"
| "find_goal sid (sg # gs) =
     (if sg = Null \<or> sg = Undefined then Inl type_error
      else if strict_eq (get_prop sg ''id'') (Str sid) then Inr sg
      else find_goal sid gs)"

definition find_subgoal :: "jsval \<Rightarrow> string \<Rightarrow> js_error + jsval" where
  "find_subgoal subgoals sid =
     (case subgoals of
        Undefined \<Rightarrow> Inr Undefined
      | Null \<Rightarrow> Inr Undefined
      | Arr gs \<Rightarrow> find_goal sid gs
      | _ \<Rightarrow> Inl type_error)"

text \<open>
  \<open>(subgoals || []).reduce((sum, goal) => sum + (Number(goal.goalCost) || 0), 0)\<close>.
\<close>

fun sum_goal_costs :: "jsval list \<Rightarrow> int \<Rightarrow> js_error + int" where
  "sum_goal_costs [] acc = Inr acc"
| "sum_goal_costs (goal # gs) acc =
     (if goal = Null \<or> goal = Undefined then Inl type_error
      else sum_goal_costs gs (acc + number_or_zero (get_prop goal ''goalCost'')))"

definition total_goals_cost :: "jsval \<Rightarrow> js_error + int" where
  "total_goals_cost subgoals =
     (case js_or subgoals (Arr []) of
        Arr gs \<Rightarrow> sum_goal_costs gs 0
      | _ \<Rightarrow> Inl type_error)"

text \<open>\<open>Number(doc.originalCost) || Number(doc.totalCost) || 0\<close>.\<close>

definition original_cost :: "jsval \<Rightarrow> int" where
  "original_cost doc =
     (if number_or_zero (get_prop doc ''originalCost'') \<noteq> 0
      then number_or_zero (get_prop doc ''originalCost'')
      else number_or_zero (get_prop doc ''totalCost''))"

definition current_user_name :: string where
  "current_user_name = map char_of
     [216, 167, 217, 132, 217, 133, 216, 179, 216, 170, 216, 174, 216, 175, 217, 133,
      32, 216, 167, 217, 132, 216, 173, 216, 167, 217, 132, 217, 138 :: nat]"

text \<open>
  The two history entries of the route. Their \<open>description\<close> and \<open>note\<close> are formatted
  display text and are left out; \<open>Date.now()\<close> is the clock reading.
\<close>

definition goal_cost_entry :: "state \<Rightarrow> int \<Rightarrow> int \<Rightarrow> jsval" where
  "goal_cost_entry s oldCost newCost =
     Obj [(''id'', Num (int (clock s))),
          (''type'', Str ''goal_cost_updated''),
          (''timestamp'', now s),
          (''date'', now s),
          (''userId'', Str ''current-user''),
          (''userName'', Str current_user_name),
          (''oldValue'', Num oldCost),
          (''newValue'', Num newCost)]"

definition total_cost_entry :: "state \<Rightarrow> jsval \<Rightarrow> int \<Rightarrow> jsval" where
  "total_cost_entry s oldValue newTotalCost =
     Obj [(''id'', Num (int (clock s) + 1)),
          (''type'', Str ''cost_updated''),
          (''timestamp'', now s),
          (''date'', now s),
          (''userId'', Str ''current-user''),
          (''userName'', Str current_user_name),
          (''oldValue'', oldValue),
          (''newValue'', Num newTotalCost)]"

definition failure :: "nat \<Rightarrow> string \<Rightarrow> nat \<times> jsval" where
  "failure code message = (code, Obj [(''success'', Bool False), (''message'', Str message)])"

text \<open>
  The \<open>_id\<close> of what a driver call gave: of the document it returned, or of the
  document's truthy field \<open>value\<close> when there is one (\<open>result?.value || result\<close> is
  written for an older driver and reads that field first).
\<close>

definition document_id :: "string \<Rightarrow> jsval \<Rightarrow> jsval" where
  "document_id pid result =
     (if truthy (get_prop result ''value'') then get_prop (get_prop result ''value'') ''_id''
      else Str (ObjectId pid))"

text \<open>
  The response: status 200 with the final document, its id as a string, the totals and
  the three lists defaulted (the localised message is left out). \<open>finalDoc._id.toString()\<close>
  throws when there is no \<open>_id\<close>, and the handler answers 500.
\<close>

definition cost_response :: "jsval \<Rightarrow> jsval \<Rightarrow> int \<Rightarrow> int \<Rightarrow> nat \<times> jsval" where
  "cost_response finalId finalDoc totalGoalsCost newTotalCost =
     (if finalId = Undefined \<or> finalId = Null
      then failure 500 ''Failed to update subgoal cost''
      else
        (200, Obj [(''success'', Bool True),
                   (''data'', Obj (assign_fields
                       [(''id'', Str (to_string finalId)),
                        (''totalGoalsCost'', Num totalGoalsCost),
                        (''totalCost'', Num newTotalCost),
                        (''subgoals'', js_or (get_prop finalDoc ''subgoals'') (Arr [])),
                        (''images'', js_or (get_prop finalDoc ''images'') (Arr [])),
                        (''history'', js_or (get_prop finalDoc ''history'') (Arr []))]
                       (case finalDoc of Obj d \<Rightarrow> d | _ \<Rightarrow> []))),
                   (''totalGoalsCost'', Num totalGoalsCost)]))"

text \<open>
  The handler. It takes no lock and uses two writes. \<open>new ObjectId\<close> throws on a
  malformed id; every exception ends in status 500. \<open>result?.value || result\<close> reads a
  truthy field \<open>value\<close> of the returned document in place of the document.
\<close>

definition updateSubgoalCost ::
  "string \<Rightarrow> string \<Rightarrow> fields \<Rightarrow> state \<Rightarrow> (nat \<times> jsval) \<times> state" where
  "updateSubgoalCost projectId subgoalId reqBody s =
     (if \<not> ObjectId_isValid projectId then (failure 500 ''Failed to update subgoal cost'', s)
      else
        (case findOne projectId s of
           (Inl e, s1) \<Rightarrow> (failure 500 ''Failed to update subgoal cost'', s1)
         | (Inr currentProject, s1) \<Rightarrow>
             if \<not> truthy currentProject then (failure 404 ''Project not found'', s1)
             else
               (case find_subgoal (get_prop currentProject ''subgoals'') subgoalId of
                  Inl e \<Rightarrow> (failure 500 ''Failed to update subgoal cost'', s1)
                | Inr targetSubgoal \<Rightarrow>
                    if \<not> truthy targetSubgoal then (failure 404 ''Subgoal not found'', s1)
                    else
                      (let oldCost = number_or_zero (get_prop targetSubgoal ''goalCost'');
                           newCost = number_or_zero (fld reqBody ''goalCost'') in
                       case findOneAndUpdate projectId
                              \<lparr>set_ops = [(''updatedAt'', now s1)],
                               positional_ops = Some (subgoalId,
                                  [(''goalCost'', Num newCost), (''updatedAt'', now s1)]),
                               push_op = Some (goal_cost_entry s1 oldCost newCost, None)\<rparr> s1 of
                         (Inl e, s2) \<Rightarrow> (failure 500 ''Failed to update subgoal cost'', s2)
                       | (Inr result, s2) \<Rightarrow>
                           (let updatedDoc = js_or (get_prop result ''value'') result in
                            if \<not> truthy updatedDoc
                            then (failure 404 ''Project or subgoal not found'', s2)
                            else
                              (case total_goals_cost (get_prop updatedDoc ''subgoals'') of
                                 Inl e \<Rightarrow> (failure 500 ''Failed to update subgoal cost'', s2)
                               | Inr totalGoalsCost \<Rightarrow>
                                   (let originalCost = original_cost updatedDoc;
                                        newTotalCost = originalCost + totalGoalsCost in
                                    case findOneAndUpdate projectId
                                           \<lparr>set_ops = [(''totalGoalsCost'', Num totalGoalsCost),
                                                       (''totalCost'', Num newTotalCost),
                                                       (''updatedAt'', now s2)],
                                            positional_ops = None,
                                            push_op = Some (total_cost_entry s2
                                               (js_or (get_prop updatedDoc ''totalCost'') (Num originalCost))
                                               newTotalCost, None)\<rparr> s2 of
                                      (Inl e, s3) \<Rightarrow> (failure 500 ''Failed to update subgoal cost'', s3)
                                    | (Inr finalUpdate, s3) \<Rightarrow>
                                        (let finalDoc = js_or (get_prop finalUpdate ''value'')
                                                          (js_or finalUpdate updatedDoc);
                                             finalId = (if truthy finalUpdate
                                                        then document_id projectId finalUpdate
                                                        else document_id projectId result)
                                         in (cost_response finalId finalDoc totalGoalsCost
                                               newTotalCost, s3)))))))))"

section \<open>Example data\<close>

definition pid0 :: string where
  "pid0 = ''0123456789abcdef01234567''"

definition timeout_error :: js_error where
  "timeout_error = JsError ''MongoNetworkTimeoutError'' ''timed out''"

text \<open>A store with one small project, whose first \<open>k\<close> round trips time out.\<close>

definition st_faults :: "nat \<Rightarrow> state" where
  "st_faults k =
     \<lparr>updateLocks = {}, projects = [pid0 \<mapsto> [(''title'', Str ''old'')]],
      faults = replicate k (Some timeout_error), clock = 0, timers = []\<rparr>"


definition st_locked :: state where
  "st_locked =
     \<lparr>updateLocks = {pid0}, projects = [pid0 \<mapsto> [(''title'', Str ''old'')]],
      faults = [], clock = 0, timers = []\<rparr>"

text \<open>A project waiting to start, with one history entry.\<close>

definition doc_waiting :: fields where
  "doc_waiting =
     [(''status'', Str ''waiting''), (''totalCost'', Num 100),
      (''createdAt'', Str ''2024-01-01''),
      (''history'', Arr [Obj [(''type'', Str ''created'')]])]"

definition st_waiting :: state where
  "st_waiting =
     \<lparr>updateLocks = {}, projects = [pid0 \<mapsto> doc_waiting], faults = [], clock = 5,
      timers = []\<rparr>"

text \<open>A project in progress with one sub-goal and one history entry.\<close>

definition doc_in_progress :: fields where
  "doc_in_progress =
     [(''status'', Str ''in-progress''),
      (''subgoals'', Arr [Obj [(''id'', Str ''a''), (''goalCost'', Num 0)]]),
      (''history'', Arr [Obj [(''type'', Str ''created'')]])]"

definition st_in_progress :: state where
  "st_in_progress =
     \<lparr>updateLocks = {}, projects = [pid0 \<mapsto> doc_in_progress], faults = [], clock = 5,
      timers = []\<rparr>"

text \<open>
  A project with no original cost, whose one sub-goal costs 500 and whose total cost is
  500.
\<close>

definition doc_no_original :: fields where
  "doc_no_original =
     [(''originalCost'', Num 0), (''totalCost'', Num 500), (''totalGoalsCost'', Num 500),
      (''subgoals'', Arr [Obj [(''id'', Str ''a''), (''goalCost'', Num 500)]]),
      (''history'', Arr [Obj [(''type'', Str ''created'')]])]"

definition st_no_original :: state where
  "st_no_original =
     \<lparr>updateLocks = {}, projects = [pid0 \<mapsto> doc_no_original], faults = [], clock = 5,
      timers = []\<rparr>"

text \<open>A project whose history is full: 20 entries.\<close>

definition doc_full :: fields where
  "doc_full =
     [(''originalCost'', Num 1000), (''totalCost'', Num 1000),
      (''subgoals'', Arr [Obj [(''id'', Str ''a''), (''goalCost'', Num 0)]]),
      (''history'', Arr (replicate 20 (Obj [(''type'', Str ''created'')])))]"

definition st_full :: state where
  "st_full =
     \<lparr>updateLocks = {}, projects = [pid0 \<mapsto> doc_full], faults = [], clock = 5,
      timers = []\<rparr>"

section \<open>Notions used in the statements\<close>

text \<open>
  The history list of a stored project, and the types of the entries of the project with
  a given id.
\<close>

definition history_of :: "fields \<Rightarrow> jsval list" where
  "history_of d = (case fld d ''history'' of Arr h \<Rightarrow> h | _ \<Rightarrow> [])"

definition history_types :: "state \<Rightarrow> string \<Rightarrow> jsval list" where
  "history_types s pid =
     (case projects s (ObjectId pid) of
        None \<Rightarrow> []
      | Some d \<Rightarrow> map (\<lambda>e. get_prop e ''type'') (history_of d))"


text \<open>A field of the stored project with a given id.\<close>

definition stored :: "state \<Rightarrow> string \<Rightarrow> string \<Rightarrow> jsval" where
  "stored s pid k =
     (case projects s (ObjectId pid) of None \<Rightarrow> Undefined | Some d \<Rightarrow> fld d k)"




section \<open>Properties of the store and of one attempt\<close>

lemma fld_update: "fld (AList.update k v d) k' = (if k' = k then v else fld d k')"
  by (simp add: fld_def update_conv)


lemma split_path_not_Nil: "split_path k \<noteq> []"
  by (induction k) (auto split: list.splits)

text \<open>A path changes the one field of the document that it starts with.\<close>

lemma set_path_top:
  assumes "set_path (k # ks) v (Obj d) = Inr r"
  shows "\<exists>x. r = Obj (AList.update k x d)"
  using assms by (auto split: if_splits sum.splits)

lemma set_fields_other:
  assumes "set_fields sets d = Inr d'" and "\<forall>(k, v)\<in>set sets. hd (split_path k) \<noteq> f"
  shows "fld d' f = fld d f"
  using assms
proof (induction sets arbitrary: d)
  case Nil
  then show ?case by simp
next
  case (Cons kv sets)
  obtain k v where kv: "kv = (k, v)" by (cases kv)
  obtain p ps where p: "split_path k = p # ps"
    using split_path_not_Nil[of k] by (cases "split_path k") auto
  from Cons.prems(1) kv p obtain d1 where
    d1: "set_path (p # ps) v (Obj d) = Inr (Obj d1)" "set_fields sets d1 = Inr d'"
    by (auto split: if_splits sum.splits jsval.splits)
  from set_path_top[OF d1(1)] obtain x where "d1 = AList.update p x d" by auto
  moreover have "p \<noteq> f" using Cons.prems(2) kv p by auto
  ultimately have "fld d1 f = fld d f" by (simp add: fld_update)
  moreover have "fld d' f = fld d1 f"
    using Cons.IH[OF d1(2)] Cons.prems(2) by auto
  ultimately show ?case by simp
qed




lemma is_prefix_single: "is_prefix [a] q = (\<exists>r. q = a # r)"
  by (cases q) auto

lemma has_conflict_append_single:
  "has_conflict (ps @ [q]) = (has_conflict ps \<or> (\<exists>p\<in>set ps. is_prefix p q \<or> is_prefix q p))"
  by (induction ps) (auto simp: list_ex_iff)




lemma update_keys_distinct: "distinct (map fst al) \<Longrightarrow> distinct (map fst (AList.update k v al))"
  by (simp add: distinct_update)





lemma next_fault_frame:
  "next_fault s = (f, s') \<Longrightarrow>
     updateLocks s' = updateLocks s \<and> projects s' = projects s \<and>
     clock s' = clock s \<and> timers s' = timers s"
  by (auto simp: next_fault_def split: list.splits)

lemma next_fault_faults:
  "next_fault s = (f, s') \<Longrightarrow> \<exists>n. faults s' = drop n (faults s)"
  by (auto simp: next_fault_def split: list.splits intro: exI[of _ 0] exI[of _ 1])

lemma findOne_faults:
  "findOne pid s = (r, s') \<Longrightarrow> \<exists>n. faults s' = drop n (faults s)"
  by (auto simp: findOne_def split: prod.splits option.splits dest: next_fault_faults)

lemma findOneAndUpdate_faults:
  "findOneAndUpdate pid ops s = (r, s') \<Longrightarrow> \<exists>n. faults s' = drop n (faults s)"
  by (auto simp: findOneAndUpdate_def 
           split: prod.splits option.splits if_splits sum.splits
           dest: next_fault_faults)

lemma findOne_cases:
  "findOne pid s = (r, s') \<Longrightarrow>
     updateLocks s' = updateLocks s \<and> projects s' = projects s \<and>
     clock s' = clock s \<and> timers s' = timers s \<and>
     (\<forall>cur. r = Inr cur \<longrightarrow>
        cur = (case projects s (ObjectId pid) of None \<Rightarrow> Null | Some d \<Rightarrow> Obj d))"
  by (auto simp: findOne_def split: prod.splits option.splits dest: next_fault_frame)

lemma findOneAndUpdate_cases:
  "findOneAndUpdate pid ops s = (r, s') \<Longrightarrow>
     updateLocks s' = updateLocks s \<and> clock s' = clock s \<and> timers s' = timers s \<and>
     (case r of
        Inl e \<Rightarrow> projects s' = projects s
      | Inr v \<Rightarrow>
          if truthy v
          then (\<exists>d d1 d'. ops_valid ops \<and> projects s (ObjectId pid) = Some d \<and>
                  matches (positional_ops ops) d \<and> set_fields (set_ops ops) d = Inr d1 \<and>
                  push_history (push_op ops) (apply_positional (positional_ops ops) d1) = Inr d' \<and>
                  v = Obj d' \<and> projects s' = (projects s)(ObjectId pid \<mapsto> d'))
          else projects s' = projects s)"
  by (auto simp: findOneAndUpdate_def split: prod.splits option.splits if_splits sum.splits
           dest: next_fault_frame)

text \<open>
  What one attempt does to the store: nothing, and then it has failed; or the one write,
  after which it returns the document unless the log after the write throws.
\<close>

lemma update_attempt_cases:
  assumes run: "update_attempt pid u s = (r, s')"
  shows "updateLocks s' = updateLocks s \<and> clock s' = clock s \<and> timers s' = timers s \<and>
         (\<exists>n. faults s' = drop n (faults s)) \<and>
         ((projects s' = projects s \<and> (\<forall>v. r \<noteq> Inr v)) \<or>
          (\<exists>d sd push d1 d'. ObjectId_isValid pid \<and> projects s (ObjectId pid) = Some d \<and>
             build_set u (now s) = Inr sd \<and>
             build_push u (if truthy (shouldAddHistory u) then Obj d else Null) (now s) = Inr push \<and>
             ops_valid \<lparr>set_ops = sd, positional_ops = None, push_op = push\<rparr> \<and>
             set_fields sd d = Inr d1 \<and> push_history push d1 = Inr d' \<and>
             projects s' = (projects s)(ObjectId pid \<mapsto> d') \<and>
             (case log_latest_entry (Obj d') of
                None \<Rightarrow> r = Inr (format_result pid (Obj d'))
              | Some e \<Rightarrow> r = Inl e)))"
proof (cases "ObjectId_isValid pid")
  case False
  with run have "r = Inl invalid_id \<and> s' = s" by (simp add: update_attempt_def)
  then show ?thesis by (auto intro: exI[of _ 0])
next
  case valid: True
  obtain fr s1 where f:
    "(if truthy (shouldAddHistory u) then findOne pid s else (Inr Null, s)) = (fr, s1)"
    by (cases "if truthy (shouldAddHistory u) then findOne pid s else (Inr Null, s)") auto
  have frame1: "updateLocks s1 = updateLocks s \<and> projects s1 = projects s \<and>
                clock s1 = clock s \<and> timers s1 = timers s"
    using f by (auto split: if_splits dest!: findOne_cases)
  have faults1: "\<exists>n. faults s1 = drop n (faults s)"
    using f by (auto split: if_splits dest!: findOne_faults intro: exI[of _ 0])
  have cur: "fr = Inr c \<Longrightarrow>
               c = (if truthy (shouldAddHistory u)
                    then (case projects s (ObjectId pid) of None \<Rightarrow> Null | Some d \<Rightarrow> Obj d)
                    else Null)" for c
    using f by (auto split: if_splits dest!: findOne_cases)
  show ?thesis
  proof (cases fr)
    case (Inl e)
    with run valid f have "r = Inl e \<and> s' = s1" by (simp add: update_attempt_def Let_def)
    with frame1 faults1 show ?thesis by auto
  next
    case (Inr c)
    show ?thesis
    proof (cases "build_set u (now s)")
      case (Inl e)
      with run valid f Inr have "r = Inl e \<and> s' = s1"
        by (simp add: update_attempt_def Let_def)
      with frame1 faults1 show ?thesis by auto
    next
      case sd: (Inr sd)
      show ?thesis
      proof (cases "build_push u c (now s)")
        case (Inl e)
        with run valid f Inr sd have "r = Inl e \<and> s' = s1"
          by (simp add: update_attempt_def Let_def)
        with frame1 faults1 show ?thesis by auto
      next
        case push: (Inr push)
        obtain ur s2 where w:
          "findOneAndUpdate pid \<lparr>set_ops = sd, positional_ops = None, push_op = push\<rparr> s1 = (ur, s2)"
          by (cases "findOneAndUpdate pid \<lparr>set_ops = sd, positional_ops = None, push_op = push\<rparr> s1")
             auto
        note wc = findOneAndUpdate_cases[OF w]
        from findOneAndUpdate_faults[OF w] faults1
        have faults2: "\<exists>n. faults s2 = drop n (faults s)"
          by (auto intro: exI[of _ "_ + _"])
        have frame2: "updateLocks s2 = updateLocks s \<and> clock s2 = clock s \<and> timers s2 = timers s"
          using wc frame1 by simp
        show ?thesis
        proof (cases ur)
          case (Inl e)
          with run valid f Inr sd push w have "r = Inl e \<and> s' = s2"
            by (simp add: update_attempt_def Let_def)
          with frame1 frame2 faults2 wc Inl show ?thesis by auto
        next
          case res: (Inr result)
          show ?thesis
          proof (cases "truthy result")
            case False
            with run valid f Inr sd push w res have "r = Inl not_found \<and> s' = s2"
              by (simp add: update_attempt_def Let_def)
            with frame1 frame2 faults2 wc res False show ?thesis by auto
          next
            case True
            with wc res obtain d d1 d' where
              ok: "ops_valid \<lparr>set_ops = sd, positional_ops = None, push_op = push\<rparr>"
              and d: "projects s1 (ObjectId pid) = Some d"
              and d1: "set_fields sd d = Inr d1"
              and d': "push_history push (apply_positional None d1) = Inr d'"
              and result: "result = Obj d'"
              and store: "projects s2 = (projects s1)(ObjectId pid \<mapsto> d')"
              by auto
            from run valid f Inr sd push w res True
            have r: "s' = s2 \<and> (case log_latest_entry result of
                                  Some e \<Rightarrow> r = Inl e
                                | None \<Rightarrow> r = Inr (format_result pid result))"
              by (simp add: update_attempt_def Let_def split: option.splits)
            have c: "c = (if truthy (shouldAddHistory u) then Obj d else Null)"
              using cur[OF Inr] d frame1 by simp
            have "ObjectId_isValid pid \<and> projects s (ObjectId pid) = Some d \<and>
                  build_set u (now s) = Inr sd \<and>
                  build_push u (if truthy (shouldAddHistory u) then Obj d else Null) (now s) = Inr push \<and>
                  ops_valid \<lparr>set_ops = sd, positional_ops = None, push_op = push\<rparr> \<and>
                  set_fields sd d = Inr d1 \<and> push_history push d1 = Inr d' \<and>
                  projects s' = (projects s)(ObjectId pid \<mapsto> d') \<and>
                  (case log_latest_entry (Obj d') of
                     None \<Rightarrow> r = Inr (format_result pid (Obj d'))
                   | Some e \<Rightarrow> r = Inl e)"
              using valid d frame1 sd push c ok d1 d' store r result
              by (simp add: apply_positional_def split: option.splits)
            with frame2 faults2 r show ?thesis by blast
          qed
        qed
      qed
    qed
  qed
qed

lemma update_attempt_frame:
  "update_attempt pid u s = (r, s') \<Longrightarrow>
     updateLocks s' = updateLocks s \<and> clock s' = clock s \<and> timers s' = timers s"
  by (drule update_attempt_cases) simp

lemma update_attempt_faults:
  "update_attempt pid u s = (r, s') \<Longrightarrow> \<exists>n. faults s' = drop n (faults s)"
  by (drule update_attempt_cases) simp

lemma log_latest_entry_error: "log_latest_entry r = Some e \<Longrightarrow> e = type_error"
  by (auto simp: log_latest_entry_def Let_def split: if_splits option.splits)

lemma not_retryable_type_error: "\<not> retryable type_error"
  by (simp add: retryable_def type_error_def)

lemma update_attempt_retryable:
  assumes "update_attempt pid u s = (Inl e, s')" and "retryable e"
  shows "projects s' = projects s"
  using update_attempt_cases[OF assms(1)] assms(2) not_retryable_type_error
  by (auto split: option.splits dest: log_latest_entry_error)

lemma update_attempt_ok:
  assumes "update_attempt pid u s = (Inr r, s')"
  shows "\<exists>d sd push d1 d'. ObjectId_isValid pid \<and> projects s (ObjectId pid) = Some d \<and>
           build_set u (now s) = Inr sd \<and>
           build_push u (if truthy (shouldAddHistory u) then Obj d else Null) (now s) = Inr push \<and>
           ops_valid \<lparr>set_ops = sd, positional_ops = None, push_op = push\<rparr> \<and>
           set_fields sd d = Inr d1 \<and> push_history push d1 = Inr d' \<and>
           projects s' = (projects s)(ObjectId pid \<mapsto> d') \<and>
           log_latest_entry (Obj d') = None \<and>
           r = format_result pid (Obj d')"
  using update_attempt_cases[OF assms] by (auto split: option.splits)


section \<open>Properties of a call of update\<close>

lemma sleep_simps [simp]:
  "updateLocks (sleep n s) = updateLocks s"
  "projects (sleep n s) = projects s"
  "faults (sleep n s) = faults s"
  "clock (sleep n s) = clock s + n"
  "timers (sleep n s) = timers s @ [n]"
  by (simp_all add: sleep_def)

lemma release_simps [simp]:
  "updateLocks (release p s) = updateLocks s - {p}"
  "projects (release p s) = projects s"
  "faults (release p s) = faults s"
  "clock (release p s) = clock s"
  "timers (release p s) = timers s"
  by (simp_all add: release_def)

lemma acquire_simps [simp]:
  "updateLocks (acquire p s) = insert p (updateLocks s)"
  "projects (acquire p s) = projects s"
  "faults (acquire p s) = faults s"
  "clock (acquire p s) = clock s"
  "timers (acquire p s) = timers s"
  by (simp_all add: acquire_def)

lemma update_waits_while_locked:
  "update pid u rc s = Some y \<Longrightarrow> pid \<notin> updateLocks s"
proof (induction pid u rc s y rule: update.raw_induct[rotated 1, consumes 1])
  case (1 f pid u rc s y)
  show ?case
  proof
    assume locked: "pid \<in> updateLocks s"
    with 1(2) have "f pid u rc (sleep 100 s) = Some y" by simp
    then have "pid \<notin> updateLocks (sleep 100 s)" by (rule 1(1))
    with locked show False by simp
  qed
qed

lemma update_locked: "pid \<in> updateLocks s \<Longrightarrow> update pid u rc s = None"
proof (cases "update pid u rc s")
  case (Some y)
  assume "pid \<in> updateLocks s"
  with update_waits_while_locked[OF Some] show ?thesis by simp
qed simp

lemma update_unlocked:
  "pid \<notin> updateLocks s \<Longrightarrow>
   update pid u rc s =
     (case update_attempt pid u (acquire pid s) of
        (Inr result, s1) \<Rightarrow> Some (Inr result, release pid s1)
      | (Inl error, s1) \<Rightarrow>
          if retryable error \<and> rc < maxRetries
          then update pid u (rc + 1) (release pid (sleep 100 (sleep (1000 * (rc + 1)) s1)))
          else Some (Inl error, release pid s1))"
  by (subst update.simps) simp

text \<open>
  A call taken with the lock free returns, and what it returns is the outcome of its last
  attempt, made on the store as the call found it.
\<close>

lemma update_final_attempt:
  assumes "pid \<notin> updateLocks s"
  shows "\<exists>s0 r s1. update pid u rc s = Some (r, release pid s1) \<and>
           update_attempt pid u s0 = (r, s1) \<and> projects s0 = projects s \<and>
           updateLocks s0 = insert pid (updateLocks s) \<and>
           (\<exists>n. faults s0 = drop n (faults s))"
  using assms
proof (induction "maxRetries - rc" arbitrary: rc s)
  case 0
  obtain r s1 where a: "update_attempt pid u (acquire pid s) = (r, s1)"
    by (cases "update_attempt pid u (acquire pid s)")
  from 0 have nr: "\<not> rc < maxRetries" by simp
  have "update pid u rc s = Some (r, release pid s1)"
    using 0(2) a nr by (cases r) (simp_all add: update_unlocked)
  with a show ?case
    by (intro exI[of _ "acquire pid s"] exI[of _ r] exI[of _ s1]) (auto intro: exI[of _ 0])
next
  case (Suc k)
  obtain r s1 where a: "update_attempt pid u (acquire pid s) = (r, s1)"
    by (cases "update_attempt pid u (acquire pid s)")
  show ?case
  proof (cases "\<exists>e. r = Inl e \<and> retryable e \<and> rc < maxRetries")
    case False
    have "update pid u rc s = Some (r, release pid s1)"
      using Suc(3) a False by (cases r) (auto simp add: update_unlocked)
    with a show ?thesis
      by (intro exI[of _ "acquire pid s"] exI[of _ r] exI[of _ s1]) (auto intro: exI[of _ 0])
  next
    case True
    then obtain e where e: "r = Inl e" "retryable e" "rc < maxRetries" by blast
    let ?s2 = "release pid (sleep 100 (sleep (1000 * (rc + 1)) s1))"
    have u: "update pid u rc s = update pid u (rc + 1) ?s2"
      using Suc(3) a e by (simp add: update_unlocked)
    have fr: "updateLocks s1 = insert pid (updateLocks s)" "projects s1 = projects s"
      using update_attempt_frame[OF a] update_attempt_retryable[of pid u "acquire pid s" e s1] a e
      by simp_all
    obtain n where n: "faults s1 = drop n (faults s)"
      using update_attempt_faults[OF a] by auto
    have k: "k = maxRetries - (rc + 1)" using Suc(2) by simp
    have free: "pid \<notin> updateLocks ?s2" by simp
    from Suc(1)[OF k free] obtain s0 r' s1' m where
      ih: "update pid u (rc + 1) ?s2 = Some (r', release pid s1')"
          "update_attempt pid u s0 = (r', s1')" "projects s0 = projects ?s2"
          "updateLocks s0 = insert pid (updateLocks ?s2)" "faults s0 = drop m (faults ?s2)"
      by blast
    have "faults s0 = drop (m + n) (faults s)"
      using ih(5) n by (simp add: add.commute)
    moreover have "updateLocks s0 = insert pid (updateLocks s)"
      using ih(4) fr(1) Suc(3) by auto
    ultimately show ?thesis
      using u ih(1,2,3) fr(2)
      by (intro exI[of _ s0] exI[of _ r'] exI[of _ s1']) auto
  qed
qed

lemma update_success_effect:
  assumes "update pid u rc s = Some (Inr r, s')"
  shows "\<exists>d sd push d1 d' stamp. ObjectId_isValid pid \<and> projects s (ObjectId pid) = Some d \<and>
           build_set u stamp = Inr sd \<and>
           build_push u (if truthy (shouldAddHistory u) then Obj d else Null) stamp = Inr push \<and>
           ops_valid \<lparr>set_ops = sd, positional_ops = None, push_op = push\<rparr> \<and>
           set_fields sd d = Inr d1 \<and> push_history push d1 = Inr d' \<and>
           projects s' = (projects s)(ObjectId pid \<mapsto> d') \<and> r = format_result pid (Obj d')"
proof -
  have free: "pid \<notin> updateLocks s"
    using assms by (rule update_waits_while_locked)
  obtain s0 r0 s1 where
    fin: "update pid u rc s = Some (r0, release pid s1)" "update_attempt pid u s0 = (r0, s1)"
         "projects s0 = projects s"
    using update_final_attempt[OF free, of u rc] by blast
  from assms fin(1) have eq: "r0 = Inr r" "s' = release pid s1" by simp_all
  from update_attempt_ok[of pid u s0 r s1] fin(2) eq(1) obtain d sd push d1 d' where
    "ObjectId_isValid pid" "projects s0 (ObjectId pid) = Some d" "build_set u (now s0) = Inr sd"
    "build_push u (if truthy (shouldAddHistory u) then Obj d else Null) (now s0) = Inr push"
    "ops_valid \<lparr>set_ops = sd, positional_ops = None, push_op = push\<rparr>"
    "set_fields sd d = Inr d1" "push_history push d1 = Inr d'"
    "projects s1 = (projects s0)(ObjectId pid \<mapsto> d')" "r = format_result pid (Obj d')"
    by auto
  then show ?thesis using fin(3) eq(2)
    by (intro exI[of _ d] exI[of _ sd] exI[of _ push] exI[of _ d1] exI[of _ d']
          exI[of _ "now s0"]) simp
qed


lemma push_history_effect:
  assumes "push_history push d0 = Inr d'"
  shows "(push = None \<and> d' = d0) \<or>
         (\<exists>entry bound. push = Some (entry, bound) \<and>
            fld d' ''history'' = Arr (slice_last bound (history_of d0 @ [entry])) \<and>
            (\<forall>k. k \<noteq> ''history'' \<longrightarrow> fld d' k = fld d0 k))"
  using assms
  by (auto simp: push_history_def history_of_def fld_update split: option.splits jsval.splits)

lemma build_push_effect:
  assumes "build_push u cur stamp = Inr push"
  shows "(push = None \<and> \<not> (truthy (shouldAddHistory u) \<and> truthy cur \<and> truthy (hasActualChanges u cur))) \<or>
         (\<exists>desc. push = Some (historyEntry u cur desc stamp, Some 20) \<and>
            truthy (shouldAddHistory u) \<and> truthy cur \<and> truthy (hasActualChanges u cur))"
  using assms by (auto simp: build_push_def split: if_splits sum.splits)

text \<open>
  A valid update document that pushes to the history sets no path into the history: the
  list the push extends is the stored one.
\<close>

lemma ops_valid_history:
  assumes "ops_valid \<lparr>set_ops = sd, positional_ops = None, push_op = Some p\<rparr>"
  shows "\<forall>(k, v)\<in>set sd. hd (split_path k) \<noteq> ''history''"
proof -
  from assms have nc: "\<not> has_conflict (map (split_path \<circ> fst) sd @ [[''history'']])"
    by (simp add: ops_valid_def ops_paths_def)
  have "hd (split_path k) \<noteq> ''history''" if "(k, v) \<in> set sd" for k v
  proof
    assume h: "hd (split_path k) = ''history''"
    have "split_path k \<in> set (map (split_path \<circ> fst) sd)" using that by force
    moreover have "is_prefix [''history''] (split_path k)"
      using h split_path_not_Nil[of k] by (cases "split_path k") (auto simp: is_prefix_single)
    ultimately show False using nc unfolding has_conflict_append_single by blast
  qed
  then show ?thesis by auto
qed

lemma pushed_history:
  assumes "ops_valid \<lparr>set_ops = sd, positional_ops = None, push_op = Some (entry, bound)\<rparr>"
    and "set_fields sd d = Inr d1" and "push_history (Some (entry, bound)) d1 = Inr d'"
  shows "history_of d' = slice_last bound (history_of d @ [entry])"
proof -
  have "fld d1 ''history'' = fld d ''history''"
    using set_fields_other[OF assms(2) ops_valid_history[OF assms(1)]] .
  then have "history_of d1 = history_of d" by (simp add: history_of_def)
  with push_history_effect[OF assms(3)] show ?thesis by (auto simp: history_of_def)
qed







lemmas model_defs =
  update_attempt_def shouldAddHistory_def fld_def js_or_def js_and_def build_set_def
  build_push_def cleanUpdateData_def findOne_def findOneAndUpdate_def next_fault_def
  retryable_def maxRetries_def acquire_def release_def sleep_def now_def matches_def
  apply_positional_def push_history_def format_result_def slice_last_def
  Let_def hasActualChanges_def shouldAddHistoryForField_def getHistoryType_def
  getHistoryDescription_def getDetailedChanges_def historyEntry_def num_neq_def js_sub_def
  invalid_id_def not_found_def type_error_def server_error_def mongo_error_def
  ops_valid_def ops_paths_def name_ok_def log_latest_entry_def index_of_def

lemma valid_pid0: "ObjectId_isValid pid0"
  by (simp add: ObjectId_isValid_def pid0_def is_hex_def)

lemma ObjectId_pid0: "ObjectId pid0 = pid0"
  by (simp add: ObjectId_def pid0_def lower_hex_def)












text \<open>The bounded run is the call: what it has returned, the call returns.\<close>

lemma update_run_returned:
  "update_run n pid u rc s = Returned r s' \<Longrightarrow> update pid u rc s = Some (r, s')"
proof (induction n pid u rc s rule: update_run.induct)
  case (1 pid u rc s)
  then show ?case by simp
next
  case (2 n pid u rc s)
  show ?case
  proof (cases "pid \<in> updateLocks s")
    case True
    with 2 have "update pid u rc (sleep 100 s) = Some (r, s')" by simp
    with True show ?thesis by (subst update.simps) simp
  next
    case False
    obtain a s1 where a: "update_attempt pid u (acquire pid s) = (a, s1)"
      by (cases "update_attempt pid u (acquire pid s)")
    show ?thesis
    proof (cases a)
      case (Inr v)
      with 2(3) False a show ?thesis by (auto simp add: update_unlocked)
    next
      case (Inl e)
      show ?thesis
      proof (cases "retryable e \<and> rc < maxRetries")
        case True
        with 2(3) False a Inl
        have "update_run n pid u (rc + 1)
                (release pid (sleep 100 (sleep (1000 * (rc + 1)) s1))) = Returned r s'"
          by simp
        with 2(2)[OF False a[symmetric] Inl True]
        have "update pid u (rc + 1)
                (release pid (sleep 100 (sleep (1000 * (rc + 1)) s1))) = Some (r, s')"
          by simp
        with False a Inl True show ?thesis by (simp add: update_unlocked)
      next
        case nr: False
        with 2(3) False a Inl show ?thesis by (auto simp add: update_unlocked)
      qed
    qed
  qed
qed

lemma update_run_locked:
  "pid \<in> updateLocks s \<Longrightarrow>
   update_run n pid u rc s =
     Entering rc (s\<lparr>clock := clock s + 100 * n, timers := timers s @ replicate n 100\<rparr>)"
proof (induction n arbitrary: s)
  case 0
  have "s\<lparr>clock := clock s + 100 * 0, timers := timers s @ replicate 0 100\<rparr> = s"
    by (cases s) simp
  then show ?case by simp
next
  case (Suc n)
  have l: "pid \<in> updateLocks (sleep 100 s)" using Suc.prems by simp
  have "(sleep 100 s)\<lparr>clock := clock (sleep 100 s) + 100 * n,
                        timers := timers (sleep 100 s) @ replicate n 100\<rparr> =
        s\<lparr>clock := clock s + 100 * Suc n, timers := timers s @ replicate (Suc n) 100\<rparr>"
    by (simp add: sleep_def add.assoc)
  with Suc.IH[OF l] Suc.prems show ?case by simp
qed

lemmas cost_defs =
  updateSubgoalCost_def find_subgoal_def total_goals_cost_def original_cost_def
  number_or_zero_def goal_cost_entry_def total_cost_entry_def failure_def cost_response_def
  has_subgoal_def findOne_def findOneAndUpdate_def next_fault_def matches_def
  apply_positional_def push_history_def assign_fields_def slice_last_def fld_def js_or_def
  now_def Let_def document_id_def ops_valid_def ops_paths_def name_ok_def mongo_error_def

lemma update_returned_run:
  "update pid u rc s = Some y \<Longrightarrow> \<exists>n. update_run n pid u rc s = Returned (fst y) (snd y)"
proof (induction pid u rc s y rule: update.raw_induct[rotated 1, consumes 1])
  case (1 f pid u rc s y)
  show ?case
  proof (cases "pid \<in> updateLocks s")
    case True
    with 1(2) have "f pid u rc (sleep 100 s) = Some y" by simp
    from 1(1)[OF this] obtain n where
      "update_run n pid u rc (sleep 100 s) = Returned (fst y) (snd y)" ..
    with True have "update_run (Suc n) pid u rc s = Returned (fst y) (snd y)" by simp
    then show ?thesis ..
  next
    case False
    obtain a s1 where a: "update_attempt pid u (acquire pid s) = (a, s1)"
      by (cases "update_attempt pid u (acquire pid s)")
    show ?thesis
    proof (cases "\<exists>e. a = Inl e \<and> retryable e \<and> rc < maxRetries")
      case True
      then obtain e where e: "a = Inl e" "retryable e" "rc < maxRetries" by blast
      with 1(2) False a
      have "f pid u (rc + 1) (release pid (sleep 100 (sleep (1000 * (rc + 1)) s1))) = Some y"
        by simp
      from 1(1)[OF this] obtain n where
        "update_run n pid u (rc + 1) (release pid (sleep 100 (sleep (1000 * (rc + 1)) s1))) =
           Returned (fst y) (snd y)" ..
      with False a e have "update_run (Suc n) pid u rc s = Returned (fst y) (snd y)" by simp
      then show ?thesis ..
    next
      case nr: False
      with 1(2) False a have "update_run (Suc 0) pid u rc s = Returned (fst y) (snd y)"
        by (cases a) auto
      then show ?thesis ..
    qed
  qed
qed

section \<open>The claims\<close>

text \<open>
  C7. Every call of \<open>update\<close> that returns, with a result or with any error, leaves the
  project id out of the lock map: the map is as it was before the call, and a later
  \<open>update\<close> of the same id takes the lock and returns.
\<close>

theorem update_releases_lock:
  assumes "update pid u rc s = Some (r, s')"
  shows "pid \<notin> updateLocks s' \<and> updateLocks s' = updateLocks s \<and>
         (\<exists>y. update pid u2 rc2 s' = Some y)"
proof -
  have free: "pid \<notin> updateLocks s"
    using assms by (rule update_waits_while_locked)
  obtain s0 r0 s1 where
    fin: "update pid u rc s = Some (r0, release pid s1)" "update_attempt pid u s0 = (r0, s1)"
         "updateLocks s0 = insert pid (updateLocks s)"
    using update_final_attempt[OF free, of u rc] by blast
  have s': "s' = release pid s1" using assms fin(1) by simp
  have "updateLocks s1 = insert pid (updateLocks s)"
    using update_attempt_frame[OF fin(2)] fin(3) by simp
  then have locks: "updateLocks s' = updateLocks s" using s' free by simp
  with free have free': "pid \<notin> updateLocks s'" by simp
  from update_final_attempt[OF free', of u2 rc2] have "\<exists>y. update pid u2 rc2 s' = Some y"
    by blast
  with locks free' show ?thesis by simp
qed

text \<open>
  The exit after the retries are used up: four time-outs in a row end the call with the
  last of them, and the lock is gone.
\<close>

theorem update_releases_lock_witness:
  "update pid0 [(''title'', Str ''new'')] 0 (st_faults 4) =
     Some (Inl timeout_error,
           \<lparr>updateLocks = {}, projects = [pid0 \<mapsto> [(''title'', Str ''old'')]],
            faults = [], clock = 6300, timers = [1000, 100, 2000, 100, 3000, 100]\<rparr>) \<and>
   pid0 \<notin> updateLocks \<lparr>updateLocks = {}, projects = [pid0 \<mapsto> [(''title'', Str ''old'')]],
            faults = [], clock = 6300, timers = [1000, 100, 2000, 100, 3000, 100]\<rparr> \<and>
   (\<exists>y. update pid0 [] 0 \<lparr>updateLocks = {}, projects = [pid0 \<mapsto> [(''title'', Str ''old'')]],
            faults = [], clock = 6300, timers = [1000, 100, 2000, 100, 3000, 100]\<rparr> = Some y)"
proof -
  have ev: "update pid0 [(''title'', Str ''new'')] 0 (st_faults 4) =
     Some (Inl timeout_error,
           \<lparr>updateLocks = {}, projects = [pid0 \<mapsto> [(''title'', Str ''old'')]],
            faults = [], clock = 6300, timers = [1000, 100, 2000, 100, 3000, 100]\<rparr>)"
    by (simp add: update_unlocked st_faults_def timeout_error_def valid_pid0 ObjectId_pid0
          model_defs numeral_eq_Suc)
  from update_releases_lock[OF ev, of "[]" 0] ev show ?thesis by simp
qed




text \<open>
  C5, as the code has it. A call that finds the id in the lock map waits 100 ms and enters
  \<open>update\<close> again with the same retry count: after \<open>n\<close> entries with the id still in the
  map it has made \<open>n\<close> waits of 100 ms and nothing else, and it is about to enter once
  more. No number of polls ends the wait and no time-out error exists: with the id left
  in the map the call does not return. Once the id is taken out of the map the call makes
  its attempt and returns.
\<close>

theorem update_polls_while_locked:
  assumes "pid \<in> updateLocks s"
  shows "update_run n pid u rc s =
           Entering rc (s\<lparr>clock := clock s + 100 * n, timers := timers s @ replicate n 100\<rparr>) \<and>
         update pid u rc s = None \<and>
         (\<exists>y. update pid u rc
                 (release pid (s\<lparr>clock := clock s + 100 * n,
                                 timers := timers s @ replicate n 100\<rparr>)) = Some y)"
proof -
  let ?s = "s\<lparr>clock := clock s + 100 * n, timers := timers s @ replicate n 100\<rparr>"
  have "pid \<notin> updateLocks (release pid ?s)" by simp
  from update_final_attempt[OF this, of u rc]
  have "\<exists>y. update pid u rc (release pid ?s) = Some y" by blast
  with update_run_locked[OF assms, of n u rc] update_locked[OF assms, of u rc]
  show ?thesis by simp
qed

text \<open>The lock of \<open>pid0\<close> is held: three polls, 300 ms, and the call has not returned.\<close>

theorem update_polls_while_locked_witness:
  "pid0 \<in> updateLocks st_locked \<and>
   update_run 3 pid0 [(''title'', Str ''new'')] 0 st_locked =
     Entering 0 \<lparr>updateLocks = {pid0}, projects = [pid0 \<mapsto> [(''title'', Str ''old'')]],
                 faults = [], clock = 300, timers = [100, 100, 100]\<rparr> \<and>
   update pid0 [(''title'', Str ''new'')] 0 st_locked = None \<and>
   (\<exists>y. update pid0 [(''title'', Str ''new'')] 0
           (release pid0 \<lparr>updateLocks = {pid0}, projects = [pid0 \<mapsto> [(''title'', Str ''old'')]],
                 faults = [], clock = 300, timers = [100, 100, 100]\<rparr>) = Some y)"
proof -
  have h: "pid0 \<in> updateLocks st_locked" by (simp add: st_locked_def)
  have s: "st_locked\<lparr>clock := clock st_locked + 100 * 3,
                      timers := timers st_locked @ replicate 3 100\<rparr> =
           \<lparr>updateLocks = {pid0}, projects = [pid0 \<mapsto> [(''title'', Str ''old'')]],
                 faults = [], clock = 300, timers = [100, 100, 100]\<rparr>"
    by (simp add: st_locked_def numeral_eq_Suc)
  from update_polls_while_locked[OF h, of 3 "[(''title'', Str ''new'')]" 0] h
  show ?thesis unfolding s by blast
qed

text \<open>
  The claim C5 as stated fails: with the lock held, the call never ends, so it does not
  end with a time-out error.
\<close>

theorem update_timeout_counterexample:
  "update pid0 [(''title'', Str ''new'')] 0 st_locked = None"
proof (cases "update pid0 [(''title'', Str ''new'')] 0 st_locked")
  case (Some y)
  then have "pid0 \<notin> updateLocks st_locked" by (rule update_waits_while_locked)
  then show ?thesis by (simp add: st_locked_def)
qed simp

text \<open>
  C9 fails on the code. \<open>cleanUpdateData\<close> deletes the four names only when they are the
  whole key. The key \<open>history.0.type\<close> passes it and reaches \<open>$set\<close>, where the store
  reads it as a path: the type of the first history entry is rewritten, and no entry is
  appended.
\<close>

theorem patch_edits_history_entry:
  "history_types st_waiting pid0 = [Str ''created''] \<and>
   cleanUpdateData [(''history.0.type'', Str ''edited'')] =
     [(''history.0.type'', Str ''edited'')] \<and>
   update pid0 [(''history.0.type'', Str ''edited'')] 0 st_waiting =
     Some (Inr (Obj [(''status'', Str ''waiting''), (''totalCost'', Num 100),
                     (''createdAt'', Str ''2024-01-01''),
                     (''history'', Arr [Obj [(''type'', Str ''edited'')]]),
                     (''updatedAt'', Num 5), (''id'', Str pid0), (''_id'', Undefined)]),
           \<lparr>updateLocks = {},
            projects = [pid0 \<mapsto> [(''status'', Str ''waiting''), (''totalCost'', Num 100),
                                 (''createdAt'', Str ''2024-01-01''),
                                 (''history'', Arr [Obj [(''type'', Str ''edited'')]]),
                                 (''updatedAt'', Num 5)]],
            faults = [], clock = 5, timers = []\<rparr>)"
  by (simp add: update_unlocked st_waiting_def doc_waiting_def valid_pid0 ObjectId_pid0
        history_types_def history_of_def array_index_def is_digit_def model_defs)

text \<open>
  C6, as the code has it. An update that records history appends one entry, and its type
  follows the fields the patch carries, in the order status, sub-goals, total cost: a
  patch with a status gives \<open>status_changed\<close> whether or not the status differs. The
  type \<open>updated\<close> is never recorded.
\<close>

theorem history_type_by_patch_fields:
  assumes "update pid u rc s = Some (Inr r, s')" and "projects s (ObjectId pid) = Some d"
    and "truthy (shouldAddHistory u)" and "truthy (hasActualChanges u (Obj d))"
  shows "\<exists>d' entry. projects s' (ObjectId pid) = Some d' \<and>
           history_of d' = slice_last (Some 20) (history_of d @ [entry]) \<and>
           get_prop entry ''type'' =
             Str (if truthy (fld u ''status'') then ''status_changed''
                  else if truthy (fld u ''subgoals'') then ''goals_updated''
                  else ''cost_updated'')"
proof -
  from assms(1,2) obtain sd push d1 d' stamp where
    ok: "build_set u stamp = Inr sd"
        "build_push u (if truthy (shouldAddHistory u) then Obj d else Null) stamp = Inr push"
        "ops_valid \<lparr>set_ops = sd, positional_ops = None, push_op = push\<rparr>"
        "set_fields sd d = Inr d1" "push_history push d1 = Inr d'"
        "projects s' = (projects s)(ObjectId pid \<mapsto> d')"
    using update_success_effect[of pid u rc s r s'] by auto
  from build_push_effect[OF ok(2)] assms(3,4) obtain desc where
    push: "push = Some (historyEntry u (Obj d) desc stamp, Some 20)"
    by auto
  have h: "history_of d' = slice_last (Some 20) (history_of d @ [historyEntry u (Obj d) desc stamp])"
    using pushed_history[OF ok(3)[unfolded push] ok(4) ok(5)[unfolded push]] .
  have ty: "get_prop (historyEntry u (Obj d) desc stamp) ''type'' =
             Str (if truthy (fld u ''status'') then ''status_changed''
                  else if truthy (fld u ''subgoals'') then ''goals_updated''
                  else ''cost_updated'')"
    using assms(3)
    by (auto simp: historyEntry_def getHistoryType_def shouldAddHistory_def js_or_def fld_def
             split: if_splits)
  show ?thesis using ok(6) h ty
    by (intro exI[of _ d'] exI[of _ "historyEntry u (Obj d) desc stamp"]) simp
qed

text \<open>A patch with a new total cost only: the entry is a \<open>cost_updated\<close> one.\<close>

theorem history_type_by_patch_fields_witness:
  "truthy (shouldAddHistory [(''totalCost'', Num 200)]) \<and>
   truthy (hasActualChanges [(''totalCost'', Num 200)] (Obj doc_waiting)) \<and>
   projects st_waiting (ObjectId pid0) = Some doc_waiting \<and>
   (\<exists>r s' d' entry.
      update pid0 [(''totalCost'', Num 200)] 0 st_waiting = Some (Inr r, s') \<and>
      projects s' (ObjectId pid0) = Some d' \<and>
      history_of d' = slice_last (Some 20) (history_of doc_waiting @ [entry]) \<and>
      get_prop entry ''type'' = Str ''cost_updated'')"
proof -
  let ?u = "[(''totalCost'', Num 200)]"
  have h: "truthy (shouldAddHistory ?u)" "truthy (hasActualChanges ?u (Obj doc_waiting))"
          "projects st_waiting (ObjectId pid0) = Some doc_waiting"
    by (simp_all add: doc_waiting_def st_waiting_def ObjectId_pid0 model_defs)
  have "\<exists>r s'. update pid0 ?u 0 st_waiting = Some (Inr r, s')"
    by (simp add: update_unlocked st_waiting_def doc_waiting_def valid_pid0 ObjectId_pid0
          model_defs)
  then obtain r s' where ev: "update pid0 ?u 0 st_waiting = Some (Inr r, s')" by auto
  from history_type_by_patch_fields[OF ev h(3,1,2)] obtain d' entry where
    "projects s' (ObjectId pid0) = Some d'"
    "history_of d' = slice_last (Some 20) (history_of doc_waiting @ [entry])"
    "get_prop entry ''type'' = Str ''cost_updated''"
    by (auto simp: fld_def)
  with ev h show ?thesis by blast
qed

text \<open>
  The claim C6 as stated fails. The project is waiting with a total cost of 100; the patch
  repeats the status and gives a total cost of 200. Only the cost check reports a change,
  and the entry recorded is a \<open>status_changed\<close> one.
\<close>

theorem history_type_counterexample:
  "\<not> truthy (shouldAddHistoryForField ''status'' (Str ''waiting'') (fld doc_waiting ''status'')) \<and>
   \<not> truthy (shouldAddHistoryForField ''subgoals'' Undefined (fld doc_waiting ''subgoals'')) \<and>
   truthy (shouldAddHistoryForField ''totalCost'' (Num 200) (fld doc_waiting ''totalCost'')) \<and>
   (case update pid0 [(''status'', Str ''waiting''), (''totalCost'', Num 200)] 0 st_waiting of
      Some (Inr r, s') \<Rightarrow> history_types s' pid0
    | _ \<Rightarrow> []) = [Str ''created'', Str ''status_changed'']"
  by (simp add: update_unlocked st_waiting_def doc_waiting_def valid_pid0 ObjectId_pid0
        history_types_def history_of_def model_defs)




text \<open>
  C1 fails on the code. The project is in progress and has one sub-goal; the patch gives
  the same status and nothing else. The check of the sub-goal count takes the missing list
  of the patch for an empty one, reports a change from one sub-goal to none, and a
  \<open>status_changed\<close> entry is appended. On the cost route, setting the cost a sub-goal
  already has appends two entries.
\<close>

theorem unchanged_patch_appends_history:
  "stored st_in_progress pid0 ''status'' = Str ''in-progress'' \<and>
   history_types st_in_progress pid0 = [Str ''created''] \<and>
   (case update pid0 [(''status'', Str ''in-progress'')] 0 st_in_progress of
      Some (Inr r, s') \<Rightarrow> history_types s' pid0
    | _ \<Rightarrow> []) = [Str ''created'', Str ''status_changed''] \<and>
   history_types st_no_original pid0 = [Str ''created''] \<and>
   history_types (snd (updateSubgoalCost pid0 ''a'' [(''goalCost'', Num 500)] st_no_original))
     pid0 = [Str ''created'', Str ''goal_cost_updated'', Str ''cost_updated'']"
proof -
  have general: "(case update pid0 [(''status'', Str ''in-progress'')] 0 st_in_progress of
      Some (Inr r, s') \<Rightarrow> history_types s' pid0
    | _ \<Rightarrow> []) = [Str ''created'', Str ''status_changed'']"
    by (simp add: update_unlocked st_in_progress_def doc_in_progress_def valid_pid0
          ObjectId_pid0 history_types_def history_of_def model_defs)
  have before: "stored st_in_progress pid0 ''status'' = Str ''in-progress''"
    "history_types st_in_progress pid0 = [Str ''created'']"
    "history_types st_no_original pid0 = [Str ''created'']"
    by (simp_all add: stored_def history_types_def history_of_def st_in_progress_def
          doc_in_progress_def st_no_original_def doc_no_original_def fld_def ObjectId_pid0)
  have cost: "history_types
      (snd (updateSubgoalCost pid0 ''a'' [(''goalCost'', Num 500)] st_no_original)) pid0 =
      [Str ''created'', Str ''goal_cost_updated'', Str ''cost_updated'']"
    by (simp add: history_types_def history_of_def st_no_original_def doc_no_original_def
          valid_pid0 ObjectId_pid0 cost_defs)
  show ?thesis using general before cost by simp
qed

text \<open>
  C2 fails on the code. The cost route pushes its two entries with no \<open>$slice\<close>: a full
  history of 20 entries has 22 after one call.
\<close>

theorem cost_route_history_exceeds_bound:
  "length (history_types st_full pid0) = 20 \<and>
   fst (fst (updateSubgoalCost pid0 ''a'' [(''goalCost'', Num 500)] st_full)) = 200 \<and>
   length (history_types
     (snd (updateSubgoalCost pid0 ''a'' [(''goalCost'', Num 500)] st_full)) pid0) = 22"
  by (simp add: history_types_def history_of_def st_full_def doc_full_def valid_pid0
        ObjectId_pid0 cost_defs)

text \<open>
  C3 fails on the code. With an original cost of 0 the route takes the stored total cost
  for the original cost. The project has a total of 500 for one sub-goal of 500; setting
  that cost to 500 again stores a total of 1000, while the original cost is still 0 and
  the sub-goals still sum to 500.
\<close>

theorem cost_route_total_drifts:
  "stored st_no_original pid0 ''originalCost'' = Num 0 \<and>
   total_goals_cost (stored st_no_original pid0 ''subgoals'') = Inr 500 \<and>
   stored st_no_original pid0 ''totalCost'' = Num 500 \<and>
   fst (fst (updateSubgoalCost pid0 ''a'' [(''goalCost'', Num 500)] st_no_original)) = 200 \<and>
   stored (snd (updateSubgoalCost pid0 ''a'' [(''goalCost'', Num 500)] st_no_original)) pid0
     ''originalCost'' = Num 0 \<and>
   total_goals_cost
     (stored (snd (updateSubgoalCost pid0 ''a'' [(''goalCost'', Num 500)] st_no_original)) pid0
        ''subgoals'') = Inr 500 \<and>
   stored (snd (updateSubgoalCost pid0 ''a'' [(''goalCost'', Num 500)] st_no_original)) pid0
     ''totalCost'' = Num 1000"
  by (simp add: stored_def st_no_original_def doc_no_original_def valid_pid0 ObjectId_pid0
        cost_defs)

end
